theory Spec2Isabelle
  imports Complex_Main "HOL-Library.Word"
begin

unbundle bit_operations_syntax

section \<open>The audio player library: data model\<close>

text \<open>
  A shallow embedding of the audio file player library (the C source with
  \<^verbatim>\<open>struct AUDIO_PLAYER\<close>, \<^verbatim>\<open>get_player\<close>, \<^verbatim>\<open>file_thread_fn\<close> and
  \<^verbatim>\<open>on_jack_process\<close>).

  Conventions of the embedding:
  \<^item> C \<^verbatim>\<open>float\<close> and \<^verbatim>\<open>double\<close> values are real numbers: rounding, infinities and
    NaN are outside the model.
  \<^item> C \<^verbatim>\<open>int\<close> is \<open>int\<close>, small unsigned quantities are \<open>nat\<close>; the counters whose
    width matters are words (\<^verbatim>\<open>jack_nframes_t\<close> is \<open>32 word\<close>, \<^verbatim>\<open>size_t\<close> is
    \<open>64 word\<close>, \<^verbatim>\<open>uint8_t\<close> is \<open>8 word\<close>).
  \<^item> Undefined behaviour of the C program (a read past the end of an array, an
    integer division by zero, a NULL dereference, a float to integer conversion out
    of range) is a value \<open>Inl fault\<close> of the result type \<open>fault + 'a\<close>.
  \<^item> Blocks under \<^verbatim>\<open>#ifdef ENABLE_OSC\<close> and \<^verbatim>\<open>#ifdef ENABLE_MIDI\<close> are not part of
    the program: the source defines neither macro.
\<close>

datatype fault = OutOfBounds | DivByZero | NullPointer | FloatToIntRange | StillWaiting

definition and_then :: "fault + 'a \<Rightarrow> ('a \<Rightarrow> fault + 'c) \<Rightarrow> fault + 'c" where
  "and_then m f = (case m of Inl e \<Rightarrow> Inl e | Inr x \<Rightarrow> f x)"

text \<open>\<^verbatim>\<open>#define MAX_PLAYERS 16\<close>\<close>

definition MAX_PLAYERS :: int where
  "MAX_PLAYERS = 16"

datatype playState = STOPPED | STARTING | PLAYING | STOPPING

datatype seekState = IDLE | SEEKING | LOADING | LOOPING

text \<open>The numeric value of a \<^verbatim>\<open>playState\<close> constant, as stored in a \<^verbatim>\<open>uint8_t\<close>.\<close>

fun playState_val :: "playState \<Rightarrow> 8 word" where
  "playState_val STOPPED = 0"
| "playState_val STARTING = 1"
| "playState_val PLAYING = 2"
| "playState_val STOPPING = 3"

text \<open>
  Modelled from the spec: the \<^verbatim>\<open>NOTIFY_*\<close> constants of \<^verbatim>\<open>player.h\<close>, which is not
  among the sources. The spec lists the event kinds Transport, Position, Gain, Loop,
  TrackA, TrackB, Quality and Debug; \<^verbatim>\<open>NOTIFY_ALL\<close> is the value the source passes to
  ask for every kind.
\<close>

datatype notify =
  NOTIFY_ALL | NOTIFY_TRANSPORT | NOTIFY_POSITION | NOTIFY_GAIN | NOTIFY_LOOP
  | NOTIFY_TRACK_A | NOTIFY_TRACK_B | NOTIFY_QUALITY | NOTIFY_DEBUG

text \<open>
  \<^verbatim>\<open>SRC_LINEAR\<close> and \<^verbatim>\<open>SRC_SINC_FASTEST\<close> are converter types of libsamplerate
  (\<^verbatim>\<open>samplerate.h\<close>).
\<close>

definition SRC_SINC_FASTEST :: nat where
  "SRC_SINC_FASTEST = 2"


subsection \<open>The JACK ring buffer\<close>

text \<open>
  \<^verbatim>\<open>jack_ringbuffer_t\<close> belongs to the JACK library. Its interface is a queue of
  bytes for one writer and one reader: a read takes at most the bytes that are queued,
  a write stores at most the bytes there is room for, and both return the number of
  bytes transferred. \<open>rb_size\<close> is the number of bytes the buffer can hold;
  \<open>rb_data\<close> are the queued bytes, oldest first.
\<close>

record 'b ringbuffer =
  rb_size :: nat
  rb_data :: "'b list"

definition jack_ringbuffer_read_space :: "'b ringbuffer \<Rightarrow> nat" where
  "jack_ringbuffer_read_space rb = length (rb_data rb)"

definition jack_ringbuffer_write_space :: "'b ringbuffer \<Rightarrow> nat" where
  "jack_ringbuffer_write_space rb = rb_size rb - length (rb_data rb)"

definition jack_ringbuffer_read :: "'b ringbuffer \<Rightarrow> nat \<Rightarrow> 'b list \<times> 'b ringbuffer" where
  "jack_ringbuffer_read rb cnt =
     (let n = min cnt (jack_ringbuffer_read_space rb)
      in (take n (rb_data rb), rb\<lparr>rb_data := drop n (rb_data rb)\<rparr>))"

definition jack_ringbuffer_write :: "'b ringbuffer \<Rightarrow> 'b list \<Rightarrow> nat \<Rightarrow> nat \<times> 'b ringbuffer" where
  "jack_ringbuffer_write rb src cnt =
     (let n = min cnt (jack_ringbuffer_write_space rb)
      in (n, rb\<lparr>rb_data := rb_data rb @ take n src\<rparr>))"


subsection \<open>Floats in memory\<close>

text \<open>
  The ring buffers carry the bytes of \<^verbatim>\<open>float\<close> objects (\<^verbatim>\<open>sizeof(float)\<close> is 4). The
  object representation is a parameter of the model: \<open>to_bytes\<close> gives the four bytes
  of a float, \<open>of_bytes\<close> reads four bytes as a float.
\<close>

record 'b float_repr =
  to_bytes :: "real \<Rightarrow> 'b list"
  of_bytes :: "'b list \<Rightarrow> real"

definition sizeof_float :: nat where
  "sizeof_float = 4"

definition encode_floats :: "'b float_repr \<Rightarrow> real list \<Rightarrow> 'b list" where
  "encode_floats r xs = concat (map (to_bytes r) xs)"

definition decode_floats :: "'b float_repr \<Rightarrow> nat \<Rightarrow> 'b list \<Rightarrow> real list" where
  "decode_floats r n bs =
     map (\<lambda>i. of_bytes r (take sizeof_float (drop (sizeof_float * i) bs))) [0..<n]"

text \<open>
  A ring buffer read into a float array (\<^verbatim>\<open>jack_ringbuffer_read(rb, (char*)pOut, cnt)\<close>):
  the bytes read overwrite the start of the array's memory, the rest of the array
  keeps its bytes.
\<close>

definition copy_in :: "'b float_repr \<Rightarrow> real list \<Rightarrow> 'b list \<Rightarrow> real list" where
  "copy_in r pOut bs =
     decode_floats r (length pOut) (bs @ drop (length bs) (encode_floats r pOut))"

subsection \<open>The player structure and the global variables\<close>

record SF_INFO =
  sf_frames :: int
  samplerate :: int
  channels :: int
  format :: int

text \<open>
  \<^verbatim>\<open>struct AUDIO_PLAYER\<close>. Pointers to JACK objects and callbacks are opaque addresses
  (\<open>None\<close> is NULL). The JACK ports, the thread id and the file name are left out:
  no function below reads them.
\<close>

record 'b AUDIO_PLAYER =
  handle :: nat
  jack_client :: "nat option"
  file_open :: "8 word"
  file_read_status :: seekState
  play_state :: playState
  loop :: "8 word"
  gain :: real
  track_a :: int
  track_b :: int
  buffer_size :: nat
  buffer_count :: nat
  src_quality :: nat
  last_play_state :: "8 word"
  last_loop :: "8 word"
  last_position :: real
  last_gain :: real
  last_track_a :: int
  last_track_b :: int
  last_src_quality :: nat
  sf_info :: SF_INFO
  ringbuffer_a :: "'b ringbuffer option"
  ringbuffer_b :: "'b ringbuffer option"
  play_pos_frames :: "32 word"
  frames :: "64 word"
  last_note_played :: "8 word"
  src_ratio :: real
  src_ratio_inv :: real
  pitch_shift :: int
  pitch_bend :: nat
  cb_object :: "nat option"
  cb_fn :: "nat option"

text \<open>
  The global variables, and the memory the players live in. \<open>g_players\<close> is the array
  \<^verbatim>\<open>struct AUDIO_PLAYER * g_players[MAX_PLAYERS]\<close> of pointers; \<open>heap\<close> maps the address
  of an allocated player to its contents. \<open>cb_calls\<close> records the calls made through
  a player's \<^verbatim>\<open>cb_fn\<close>: the function, its \<^verbatim>\<open>cb_object\<close>, the event kind and the value.
\<close>

record 'b world =
  g_players :: "nat \<Rightarrow> nat option"
  heap :: "nat \<Rightarrow> 'b AUDIO_PLAYER"
  g_samplerate :: nat
  g_debug :: "8 word"
  g_last_debug :: "8 word"
  cb_calls :: "(nat \<times> nat option \<times> notify \<times> real) list"

text \<open>A store through a player pointer: \<^verbatim>\<open>pPlayer->field = value\<close>.\<close>

definition upd :: "nat \<Rightarrow> ('b AUDIO_PLAYER \<Rightarrow> 'b AUDIO_PLAYER) \<Rightarrow> 'b world \<Rightarrow> 'b world" where
  "upd a f w = w\<lparr>heap := (heap w)(a := f (heap w a))\<rparr>"

section \<open>The player registry\<close>

text \<open>
  Reading \<^verbatim>\<open>g_players[i]\<close>: the array has \<^verbatim>\<open>MAX_PLAYERS\<close> elements, an index outside
  it is a read out of bounds.
\<close>

definition g_players_at :: "'b world \<Rightarrow> int \<Rightarrow> fault + nat option" where
  "g_players_at w i =
     (if 0 \<le> i \<and> i < MAX_PLAYERS then Inr (g_players w (nat i)) else Inl OutOfBounds)"

definition get_player :: "'b world \<Rightarrow> int \<Rightarrow> fault + nat option" where
  "get_player w player_handle =
     (if player_handle > MAX_PLAYERS \<or> player_handle < 0 then Inr None
      else g_players_at w player_handle)"

text \<open>
  \<^verbatim>\<open>get_player_count\<close>: the test in the loop is \<^verbatim>\<open>if(g_players)\<close>, the array itself,
  which in a condition is the address of its first element and never NULL.
\<close>

definition array_address_nonnull :: "(nat \<Rightarrow> nat option) \<Rightarrow> bool" where
  "array_address_nonnull arr = True"

definition get_player_count :: "'b world \<Rightarrow> nat" where
  "get_player_count w =
     fold (\<lambda>i count. if array_address_nonnull (g_players w) then count + 1 else count)
       [0..<nat MAX_PLAYERS] 0"

section \<open>The control surface\<close>


definition get_position :: "'b world \<Rightarrow> int \<Rightarrow> fault + real" where
  "get_position w player_handle =
     and_then (get_player w player_handle) (\<lambda>pPlayer.
       case pPlayer of
         None \<Rightarrow> Inr 0
       | Some a \<Rightarrow>
           if file_open (heap w a) = 2 \<and> samplerate (sf_info (heap w a)) \<noteq> 0
           then Inr (src_ratio_inv (heap w a) * real (unat (play_pos_frames (heap w a)))
                       / real_of_int (samplerate (sf_info (heap w a))))
           else Inr 0)"

subsection \<open>Notifications\<close>

text \<open>The call \<^verbatim>\<open>if(pPlayer->cb_fn) pPlayer->cb_fn(pPlayer->cb_object, kind, value)\<close>.\<close>

definition call_cb :: "nat \<Rightarrow> notify \<Rightarrow> real \<Rightarrow> 'b world \<Rightarrow> 'b world" where
  "call_cb a kind v w =
     (case cb_fn (heap w a) of
        None \<Rightarrow> w
      | Some f \<Rightarrow> w\<lparr>cb_calls := cb_calls w @ [(f, cb_object (heap w a), kind, v)]\<rparr>)"

definition notify_transport :: "nat \<Rightarrow> notify \<Rightarrow> 'b world \<Rightarrow> 'b world" where
  "notify_transport a param w =
     (if (param = NOTIFY_ALL \<or> param = NOTIFY_TRANSPORT)
         \<and> last_play_state (heap w a) \<noteq> playState_val (play_state (heap w a))
      then call_cb a NOTIFY_TRANSPORT (real (unat (playState_val (play_state (heap w a)))))
             (upd a (\<lambda>p. p\<lparr>last_play_state := playState_val (play_state p)\<rparr>) w)
      else w)"

definition notify_position :: "nat \<Rightarrow> notify \<Rightarrow> 'b world \<Rightarrow> fault + 'b world" where
  "notify_position a param w =
     (if param = NOTIFY_ALL \<or> param = NOTIFY_POSITION then
        and_then (get_position w (int (handle (heap w a)))) (\<lambda>pos.
          if \<bar>pos - last_position (heap w a)\<bar> \<ge> 0.1 then
            and_then (get_position w (int (handle (heap w a)))) (\<lambda>pos'.
              Inr (call_cb a NOTIFY_POSITION pos' (upd a (\<lambda>p. p\<lparr>last_position := pos'\<rparr>) w)))
          else Inr w)
      else Inr w)"

definition notify_gain :: "nat \<Rightarrow> notify \<Rightarrow> 'b world \<Rightarrow> 'b world" where
  "notify_gain a param w =
     (if (param = NOTIFY_ALL \<or> param = NOTIFY_GAIN)
         \<and> \<bar>gain (heap w a) - last_gain (heap w a)\<bar> \<ge> 0.01
      then call_cb a NOTIFY_GAIN (gain (heap w a))
             (upd a (\<lambda>p. p\<lparr>last_gain := gain p\<rparr>) w)
      else w)"

definition notify_loop :: "nat \<Rightarrow> notify \<Rightarrow> 'b world \<Rightarrow> 'b world" where
  "notify_loop a param w =
     (if (param = NOTIFY_ALL \<or> param = NOTIFY_LOOP)
         \<and> loop (heap w a) \<noteq> last_loop (heap w a)
      then call_cb a NOTIFY_LOOP (real (unat (loop (heap w a))))
             (upd a (\<lambda>p. p\<lparr>last_loop := loop p\<rparr>) w)
      else w)"

definition notify_track_a :: "nat \<Rightarrow> notify \<Rightarrow> 'b world \<Rightarrow> 'b world" where
  "notify_track_a a param w =
     (if (param = NOTIFY_ALL \<or> param = NOTIFY_TRACK_A)
         \<and> track_a (heap w a) \<noteq> last_track_a (heap w a)
      then call_cb a NOTIFY_TRACK_A (real_of_int (track_a (heap w a)))
             (upd a (\<lambda>p. p\<lparr>last_track_a := track_a p\<rparr>) w)
      else w)"

definition notify_track_b :: "nat \<Rightarrow> notify \<Rightarrow> 'b world \<Rightarrow> 'b world" where
  "notify_track_b a param w =
     (if (param = NOTIFY_ALL \<or> param = NOTIFY_TRACK_B)
         \<and> track_b (heap w a) \<noteq> last_track_b (heap w a)
      then call_cb a NOTIFY_TRACK_B (real_of_int (track_b (heap w a)))
             (upd a (\<lambda>p. p\<lparr>last_track_b := track_b p\<rparr>) w)
      else w)"

definition notify_quality :: "nat \<Rightarrow> notify \<Rightarrow> 'b world \<Rightarrow> 'b world" where
  "notify_quality a param w =
     (if (param = NOTIFY_ALL \<or> param = NOTIFY_QUALITY)
         \<and> src_quality (heap w a) \<noteq> last_src_quality (heap w a)
      then call_cb a NOTIFY_QUALITY (real (src_quality (heap w a)))
             (upd a (\<lambda>p. p\<lparr>last_src_quality := src_quality p\<rparr>) w)
      else w)"

definition notify_debug :: "nat \<Rightarrow> notify \<Rightarrow> 'b world \<Rightarrow> 'b world" where
  "notify_debug a param w =
     (if (param = NOTIFY_ALL \<or> param = NOTIFY_DEBUG) \<and> g_debug w \<noteq> g_last_debug w
      then call_cb a NOTIFY_DEBUG (real (unat (g_debug w))) (w\<lparr>g_last_debug := g_debug w\<rparr>)
      else w)"

definition send_notifications :: "'b world \<Rightarrow> nat option \<Rightarrow> notify \<Rightarrow> fault + 'b world" where
  "send_notifications w pPlayer param =
     (case pPlayer of
        None \<Rightarrow> Inr w
      | Some a \<Rightarrow>
          if file_open (heap w a) \<noteq> 2 then Inr w
          else
            and_then (notify_position a param (notify_transport a param w)) (\<lambda>w2.
              Inr (notify_debug a param (notify_quality a param (notify_track_b a param
                    (notify_track_a a param (notify_loop a param (notify_gain a param w2))))))))"

subsection \<open>Position, transport and loop\<close>

text \<open>
  The conversion of a \<^verbatim>\<open>double\<close> to \<^verbatim>\<open>jack_nframes_t\<close> (an unsigned 32 bit integer)
  in an assignment: the value is truncated towards zero; the behaviour is undefined
  when the truncated value does not fit.
\<close>

definition double_to_nframes :: "real \<Rightarrow> fault + 32 word" where
  "double_to_nframes x =
     (if -1 < x \<and> x < 2 ^ 32 then Inr (word_of_int \<lfloor>max x 0\<rfloor>) else Inl FloatToIntRange)"




definition is_loop :: "'b world \<Rightarrow> int \<Rightarrow> fault + 8 word" where
  "is_loop w player_handle =
     and_then (get_player w player_handle) (\<lambda>pPlayer.
       case pPlayer of
         None \<Rightarrow> Inr 0
       | Some a \<Rightarrow> if file_open (heap w a) \<noteq> 2 then Inr 0 else Inr (loop (heap w a)))"



subsection \<open>Quality, gain, track selection and buffer sizing\<close>


definition set_gain :: "'b world \<Rightarrow> int \<Rightarrow> real \<Rightarrow> fault + 'b world" where
  "set_gain w player_handle g =
     and_then (get_player w player_handle) (\<lambda>pPlayer.
       case pPlayer of
         None \<Rightarrow> Inr w
       | Some a \<Rightarrow>
           if file_open (heap w a) \<noteq> 2 then Inr w
           else if g < 0 \<or> g > 2 then Inr w
           else send_notifications (upd a (\<lambda>p. p\<lparr>gain := g\<rparr>) w) (Some a) NOTIFY_GAIN)"




definition set_buffer_size :: "'b world \<Rightarrow> int \<Rightarrow> nat \<Rightarrow> fault + 'b world" where
  "set_buffer_size w player_handle size' =
     and_then (get_player w player_handle) (\<lambda>pPlayer.
       case pPlayer of
         None \<Rightarrow> Inr w
       | Some a \<Rightarrow>
           if file_open (heap w a) = 0 then Inr (upd a (\<lambda>p. p\<lparr>buffer_size := size'\<rparr>) w)
           else Inr w)"

definition set_buffer_count :: "'b world \<Rightarrow> int \<Rightarrow> nat \<Rightarrow> fault + 'b world" where
  "set_buffer_count w player_handle count =
     and_then (get_player w player_handle) (\<lambda>pPlayer.
       case pPlayer of
         None \<Rightarrow> Inr w
       | Some a \<Rightarrow>
           if file_open (heap w a) = 0 \<and> count > 1
           then Inr (upd a (\<lambda>p. p\<lparr>buffer_count := count\<rparr>) w)
           else Inr w)"

section \<open>The JACK process callback\<close>



text \<open>
  The two loops over the drained frames,
  \<^verbatim>\<open>for(offset = 0; offset < count; ++offset) { pOutA[offset] *= f; pOutB[offset] *= f; }\<close>,
  with \<^verbatim>\<open>f = gain\<close> in the first and \<^verbatim>\<open>f = 1.0 - ((float)offset / count)\<close> in the second.
\<close>

definition scale_frames ::
  "nat \<Rightarrow> (nat \<Rightarrow> real) \<Rightarrow> real list \<times> real list \<Rightarrow> real list \<times> real list" where
  "scale_frames count f outs =
     fold (\<lambda>offset (pOutA, pOutB).
             (pOutA[offset := pOutA ! offset * f offset],
              pOutB[offset := pOutB ! offset * f offset]))
       [0..<count] outs"


text \<open>\<^verbatim>\<open>memset(pOut + count, 0, (nFrames - count) * sizeof(jack_default_audio_sample_t))\<close>\<close>

definition silence :: "nat \<Rightarrow> nat \<Rightarrow> real list \<Rightarrow> real list" where
  "silence count nFrames pOut = fold (\<lambda>i out. out[i := 0]) [count..<nFrames] pOut"

text \<open>
  \<^verbatim>\<open>if(play_state == STARTING && file_read_status != SEEKING) play_state = PLAYING;\<close>
\<close>

definition start_when_sought :: "'b world \<Rightarrow> nat \<Rightarrow> 'b world" where
  "start_when_sought w a =
     (if play_state (heap w a) = STARTING \<and> file_read_status (heap w a) \<noteq> SEEKING
      then upd a (\<lambda>p. p\<lparr>play_state := PLAYING\<rparr>) w else w)"

text \<open>
  The soft mute:
  \<^verbatim>\<open>if(play_state == STOPPING || play_state == PLAYING && eof) { ... }\<close>, which fades
  the drained frames, stops the transport and, at the end of the file, cues the start.
\<close>

definition soft_mute ::
  "'b world \<Rightarrow> nat \<Rightarrow> nat \<Rightarrow> bool \<Rightarrow> real list \<times> real list
     \<Rightarrow> 'b world \<times> real list \<times> real list" where
  "soft_mute w a count eof outs =
     (if play_state (heap w a) = STOPPING \<or> play_state (heap w a) = PLAYING \<and> eof then
        (let outs1 = scale_frames count (\<lambda>offset. 1 - real offset / real count) outs;
             w1 = upd a (\<lambda>p. p\<lparr>play_state := STOPPED\<rparr>) w
         in if eof
            then (upd a (\<lambda>p. p\<lparr>play_pos_frames := 0, file_read_status := SEEKING\<rparr>) w1, outs1)
            else (w1, outs1))
      else (w, outs))"





section \<open>The file reader thread: writing a block to the ring buffers\<close>

text \<open>
  The part of the loading step of \<^verbatim>\<open>file_thread_fn\<close> that follows the read and the
  sample rate conversion: \<^verbatim>\<open>pBufferOut\<close> holds \<^verbatim>\<open>nFramesRead\<close> frames of
  \<^verbatim>\<open>sf_info.channels\<close> interleaved samples.
\<close>

text \<open>Reading \<^verbatim>\<open>pBufferOut[i]\<close>; an index outside the array is a fault.\<close>

definition buffer_at :: "real list \<Rightarrow> int \<Rightarrow> fault + real" where
  "buffer_at pBufferOut i =
     (if 0 \<le> i \<and> i < int (length pBufferOut) then Inr (pBufferOut ! nat i)
      else Inl OutOfBounds)"

text \<open>
  \<^verbatim>\<open>for(int track = 0; track < channels; track += 2)
      fA += pBufferOut[sample + track] / (channels / 2);\<close>
\<close>

function mix_a :: "real list \<Rightarrow> int \<Rightarrow> int \<Rightarrow> int \<Rightarrow> real \<Rightarrow> fault + real" where
  "mix_a pBufferOut chans sample track fA =
     (if track < chans then
        (case buffer_at pBufferOut (sample + track) of
           Inl e \<Rightarrow> Inl e
         | Inr x \<Rightarrow> mix_a pBufferOut chans sample (track + 2)
                      (fA + x / real_of_int (chans div 2)))
      else Inr fA)"
  by pat_completeness auto
termination
  by (relation "measure (\<lambda>(pBufferOut, chans, sample, track, fA). nat (chans - track))") auto

text \<open>
  \<^verbatim>\<open>for(int track = 0; track + 1 < channels; track += 2)
      fB += pBufferOut[sample + track + 1] / (channels / 2);\<close>
\<close>

function mix_b :: "real list \<Rightarrow> int \<Rightarrow> int \<Rightarrow> int \<Rightarrow> real \<Rightarrow> fault + real" where
  "mix_b pBufferOut chans sample track fB =
     (if track + 1 < chans then
        (case buffer_at pBufferOut (sample + track + 1) of
           Inl e \<Rightarrow> Inl e
         | Inr x \<Rightarrow> mix_b pBufferOut chans sample (track + 2)
                      (fB + x / real_of_int (chans div 2)))
      else Inr fB)"
  by pat_completeness auto
termination
  by (relation "measure (\<lambda>(pBufferOut, chans, sample, track, fB). nat (chans - track))") auto

text \<open>The two samples \<^verbatim>\<open>fA\<close> and \<^verbatim>\<open>fB\<close> of one output frame.\<close>

definition demux_frame :: "real list \<Rightarrow> int \<Rightarrow> int \<Rightarrow> int \<Rightarrow> nat \<Rightarrow> fault + (real \<times> real)" where
  "demux_frame pBufferOut chans trackA trackB frame =
     (let sample = int frame * chans in
      if chans > 1 then
        and_then (if trackA < 0 then mix_a pBufferOut chans sample 0 0
                  else buffer_at pBufferOut (sample + trackA)) (\<lambda>fA.
        and_then (if trackB < 0 then mix_b pBufferOut chans sample 0 0
                  else buffer_at pBufferOut (sample + trackB)) (\<lambda>fB.
        Inr (fA, fB)))
      else
        and_then (buffer_at pBufferOut sample) (\<lambda>x. Inr (x / 2, x / 2)))"

text \<open>
  The loop over the frames: each frame is demultiplexed and written, \<^verbatim>\<open>fB\<close> first with
  \<^verbatim>\<open>sizeof(float)\<close> bytes, then \<^verbatim>\<open>fA\<close> with as many bytes as went into ring buffer B.
\<close>

function demux_loop ::
  "'b float_repr \<Rightarrow> real list \<Rightarrow> int \<Rightarrow> int \<Rightarrow> int \<Rightarrow> nat \<Rightarrow> nat
     \<Rightarrow> 'b ringbuffer \<Rightarrow> 'b ringbuffer \<Rightarrow> fault + ('b ringbuffer \<times> 'b ringbuffer)" where
  "demux_loop r pBufferOut chans trackA trackB nFramesRead frame ra rb =
     (if frame < nFramesRead then
        (case demux_frame pBufferOut chans trackA trackB frame of
           Inl e \<Rightarrow> Inl e
         | Inr fs \<Rightarrow>
             (let wroteB = jack_ringbuffer_write rb (to_bytes r (snd fs)) sizeof_float;
                  wroteA = jack_ringbuffer_write ra (to_bytes r (fst fs)) (fst wroteB)
              in if sizeof_float < fst wroteA then Inr (snd wroteA, snd wroteB)
                 else demux_loop r pBufferOut chans trackA trackB nFramesRead (frame + 1)
                        (snd wroteA) (snd wroteB)))
      else Inr (ra, rb))"
  by pat_completeness auto
termination
  by (relation "measure (\<lambda>(r, pBufferOut, chans, trackA, trackB, nFramesRead, frame, ra, rb).
                   nFramesRead - frame)") auto

text \<open>
  The wait for space. While the thread sleeps the other threads run: \<open>env\<close> lists, for
  each \<^verbatim>\<open>usleep\<close> of the loop, what they do to the state meanwhile. When the list is
  used up and the loop would sleep again, the result is \<open>Inl StillWaiting\<close>.
\<close>

fun wait_for_space ::
  "('b world \<Rightarrow> 'b world) list \<Rightarrow> 'b world \<Rightarrow> nat \<Rightarrow> nat \<Rightarrow> fault + 'b world" where
  "wait_for_space env w a nFramesRead =
     (case ringbuffer_a (heap w a) of
        None \<Rightarrow> Inl NullPointer
      | Some ra \<Rightarrow>
         (case ringbuffer_b (heap w a) of
            None \<Rightarrow> Inl NullPointer
          | Some rb \<Rightarrow>
              if jack_ringbuffer_write_space ra < nFramesRead * sizeof_float
                 \<and> jack_ringbuffer_write_space rb < nFramesRead * sizeof_float
              then
                (case env of
                   [] \<Rightarrow> Inl StillWaiting
                 | others # env' \<Rightarrow>
                     (case send_notifications w (Some a) NOTIFY_ALL of
                        Inl e \<Rightarrow> Inl e
                      | Inr w1 \<Rightarrow>
                          if file_open (heap (others w1) a) = 0 then Inr (others w1)
                          else wait_for_space env' (others w1) a nFramesRead))
              else Inr w))"

definition write_block ::
  "'b float_repr \<Rightarrow> ('b world \<Rightarrow> 'b world) list \<Rightarrow> 'b world \<Rightarrow> nat \<Rightarrow> real list \<Rightarrow> nat
     \<Rightarrow> fault + 'b world" where
  "write_block r env w a pBufferOut nFramesRead =
     and_then (wait_for_space env w a nFramesRead) (\<lambda>w1.
       if file_open (heap w1 a) = 2 \<and> file_read_status (heap w1 a) = LOADING then
         (case ringbuffer_a (heap w1 a) of
            None \<Rightarrow> Inl NullPointer
          | Some ra \<Rightarrow>
             (case ringbuffer_b (heap w1 a) of
                None \<Rightarrow> Inl NullPointer
              | Some rb \<Rightarrow>
                  and_then (demux_loop r pBufferOut (channels (sf_info (heap w1 a)))
                              (track_a (heap w1 a)) (track_b (heap w1 a)) nFramesRead 0 ra rb)
                    (\<lambda>rings. Inr (upd a (\<lambda>p. p\<lparr>ringbuffer_a := Some (fst rings),
                                                  ringbuffer_b := Some (snd rings)\<rparr>) w1))))
       else Inr w1)"

section \<open>Example states\<close>

text \<open>
  An object representation for the examples: byte \<open>k\<close> of the float \<open>x\<close> is the pair
  \<open>(x, k)\<close>, and bytes are read back as the float their first byte belongs to.
\<close>

definition sym_repr :: "(real \<times> nat) float_repr" where
  "sym_repr = \<lparr>to_bytes = (\<lambda>x. [(x, 0), (x, 1), (x, 2), (x, 3)]),
               of_bytes = (\<lambda>bs. case bs of [] \<Rightarrow> 0 | b # _ \<Rightarrow> fst b)\<rparr>"

text \<open>
  The player that \<^verbatim>\<open>init\<close> builds for a handle. The fields \<^verbatim>\<open>init\<close> leaves unassigned
  are zero or NULL here.
\<close>

definition init_player :: "nat \<Rightarrow> 'b AUDIO_PLAYER" where
  "init_player player_handle =
     \<lparr>handle = player_handle, jack_client = Some 1, file_open = 0, file_read_status = IDLE,
      play_state = STOPPED, loop = 0, gain = 1, track_a = 0, track_b = 0,
      buffer_size = 48000, buffer_count = 5, src_quality = SRC_SINC_FASTEST,
      last_play_state = 0, last_loop = 0, last_position = 0, last_gain = 0,
      last_track_a = 0, last_track_b = 0, last_src_quality = 0,
      sf_info = \<lparr>sf_frames = 0, samplerate = 0, channels = 0, format = 0\<rparr>,
      ringbuffer_a = None, ringbuffer_b = None, play_pos_frames = 0, frames = 0,
      last_note_played = 0, src_ratio = 0, src_ratio_inv = 0, pitch_shift = 0,
      pitch_bend = 0, cb_object = None, cb_fn = None\<rparr>"

text \<open>A state with one player, at address 1 and registered in slot 0.\<close>

definition single_player :: "'b AUDIO_PLAYER \<Rightarrow> 'b world" where
  "single_player p =
     \<lparr>g_players = (\<lambda>i. if i = 0 then Some 1 else None), heap = (\<lambda>a. p),
      g_samplerate = 44100, g_debug = 0, g_last_debug = 0, cb_calls = []\<rparr>"

text \<open>A player as \<^verbatim>\<open>init\<close> leaves it, with no file: the state \<open>closed_world\<close>.\<close>

definition closed_world :: "(real \<times> nat) world" where
  "closed_world = single_player (init_player 0)"

text \<open>
  A player with an open stereo file of four frames, as the file thread sets it up, with
  two frames queued in each ring buffer: the state \<open>open_world\<close>.
\<close>

definition open_player :: "(real \<times> nat) AUDIO_PLAYER" where
  "open_player =
     (init_player 0)\<lparr>file_open := 2, file_read_status := LOADING, last_play_state := 255,
        last_position := -1,
        sf_info := \<lparr>sf_frames = 4, samplerate = 44100, channels = 2, format = 0\<rparr>,
        ringbuffer_a := Some \<lparr>rb_size = 16, rb_data = encode_floats sym_repr [1/2, 1/4]\<rparr>,
        ringbuffer_b := Some \<lparr>rb_size = 16, rb_data = encode_floats sym_repr [1/8, 1]\<rparr>,
        frames := 4, src_ratio := 1, src_ratio_inv := 1, pitch_bend := 8192\<rparr>"

definition open_world :: "(real \<times> nat) world" where
  "open_world = single_player open_player"

text \<open>
  The same player while it plays, started by note 48 (pitch shift 12): the state
  \<open>playing_world\<close>.
\<close>

definition playing_player :: "(real \<times> nat) AUDIO_PLAYER" where
  "playing_player =
     open_player\<lparr>play_state := PLAYING, last_play_state := 2, pitch_shift := 12,
       last_note_played := 48\<rparr>"

definition playing_world :: "(real \<times> nat) world" where
  "playing_world = single_player playing_player"

text \<open>
  The playing player when the file thread has read the file to its end and is idle: the
  state \<open>ending_world\<close>.
\<close>

definition ending_player :: "(real \<times> nat) AUDIO_PLAYER" where
  "ending_player = playing_player\<lparr>file_read_status := IDLE\<rparr>"

definition ending_world :: "(real \<times> nat) world" where
  "ending_world = single_player ending_player"

text \<open>
  A player whose ring buffer A is empty while ring buffer B has room for two bytes only,
  with track B set to channel 1: the state \<open>lopsided_world\<close>.
\<close>

definition lopsided_player :: "(real \<times> nat) AUDIO_PLAYER" where
  "lopsided_player =
     open_player\<lparr>track_b := 1,
       ringbuffer_a := Some \<lparr>rb_size = 16, rb_data = []\<rparr>,
       ringbuffer_b := Some \<lparr>rb_size = 16,
         rb_data = encode_floats sym_repr [1/8, 1, 1/8] @ [(1, 0), (1, 1)]\<rparr>\<rparr>"

definition lopsided_world :: "(real \<times> nat) world" where
  "lopsided_world = single_player lopsided_player"

section \<open>Conditions on the state\<close>


section \<open>The downmix in the words of the specification\<close>

text \<open>
  The specification speaks of the average of the even-indexed channels (0, 2, 4, ...)
  of a frame, and of the odd-indexed ones. \<open>channel_samples\<close> are the samples of the
  given channels in a frame of the interleaved buffer.
\<close>

definition channel_samples :: "real list \<Rightarrow> nat \<Rightarrow> nat \<Rightarrow> nat list \<Rightarrow> real list" where
  "channel_samples pBufferOut chans frame tracks =
     map (\<lambda>track. pBufferOut ! (frame * chans + track)) tracks"

definition average :: "real list \<Rightarrow> real" where
  "average xs = sum_list xs / real (length xs)"

definition even_channels :: "nat \<Rightarrow> nat list" where
  "even_channels chans = filter even [0..<chans]"

definition odd_channels :: "nat \<Rightarrow> nat list" where
  "odd_channels chans = filter odd [0..<chans]"

section \<open>Properties\<close>

subsection \<open>Basic facts\<close>

lemma and_then_Inr [simp]: "and_then (Inr x) f = f x"
  by (simp add: and_then_def)

lemma and_then_Inl [simp]: "and_then (Inl e) f = Inl e"
  by (simp add: and_then_def)

lemma fold_count_up: "fold (\<lambda>i. Suc) xs n = n + length xs"
  by (induction xs arbitrary: n) auto

lemma get_player_outside: "h < 0 \<or> 16 < h \<Longrightarrow> get_player w h = Inr None"
  by (auto simp: get_player_def MAX_PLAYERS_def)

lemma get_player_inside: "0 \<le> h \<Longrightarrow> h < 16 \<Longrightarrow> get_player w h = Inr (g_players w (nat h))"
  by (auto simp: get_player_def g_players_at_def MAX_PLAYERS_def)

subsection \<open>The registry\<close>

text \<open>
  Claim C10. \<^verbatim>\<open>get_player_count\<close> returns 16, the value of \<^verbatim>\<open>MAX_PLAYERS\<close>, in every
  state: whatever the slots of the registry hold, the test of its loop is true sixteen
  times.
\<close>

theorem get_player_count_is_capacity: "get_player_count w = 16"
  by (simp add: get_player_count_def array_address_nonnull_def MAX_PLAYERS_def fold_count_up)

text \<open>
  Claim C3. The handle 16 is outside the registry, whose slots are 0 to 15, but the
  range check of \<^verbatim>\<open>get_player\<close> lets it through (it refuses only handles above
  \<^verbatim>\<open>MAX_PLAYERS\<close>): the lookup reads \<^verbatim>\<open>g_players[16]\<close>, past the end of the array, and
  so does every operation that starts with the lookup.
\<close>

theorem get_player_at_capacity:
  "get_player w 16 = Inl OutOfBounds \<and> set_gain w 16 g = Inl OutOfBounds
   \<and> get_position w 16 = Inl OutOfBounds"
  by (simp add: get_player_def g_players_at_def set_gain_def get_position_def MAX_PLAYERS_def)

subsection \<open>Stores and notifications\<close>

lemma heap_upd [simp]: "heap (upd a f w) = (heap w)(a := f (heap w a))"
  and g_players_upd [simp]: "g_players (upd a f w) = g_players w"
  and g_debug_upd [simp]: "g_debug (upd a f w) = g_debug w"
  and g_last_debug_upd [simp]: "g_last_debug (upd a f w) = g_last_debug w"
  and cb_calls_upd [simp]: "cb_calls (upd a f w) = cb_calls w"
  by (simp_all add: upd_def)

lemma heap_call_cb [simp]: "heap (call_cb a k v w) = heap w"
  and g_players_call_cb [simp]: "g_players (call_cb a k v w) = g_players w"
  by (simp_all add: call_cb_def split: option.splits)


lemma get_player_upd [simp]: "get_player (upd a f w) h = get_player w h"
  by (simp add: get_player_def g_players_at_def)

lemma get_player_call_cb [simp]: "get_player (call_cb a k v w) h = get_player w h"
  by (simp add: get_player_def g_players_at_def)




subsection \<open>The example states\<close>

lemma single_player_simps [simp]:
  "g_players (single_player p) = (\<lambda>i. if i = 0 then Some 1 else None)"
  "heap (single_player p) = (\<lambda>a. p)"
  by (simp_all add: single_player_def)

lemma example_worlds [simp]:
  "g_players closed_world = (\<lambda>i. if i = 0 then Some 1 else None)"
  "heap closed_world = (\<lambda>a. init_player 0)"
  "g_players open_world = (\<lambda>i. if i = 0 then Some 1 else None)"
  "heap open_world = (\<lambda>a. open_player)"
  by (simp_all add: closed_world_def open_world_def)

lemma get_player_examples [simp]:
  "get_player closed_world 0 = Inr (Some 1)" "get_player open_world 0 = Inr (Some 1)"
  by (simp_all add: get_player_def g_players_at_def MAX_PLAYERS_def)

subsection \<open>Gain\<close>



subsection \<open>Setters without an open file\<close>




subsection \<open>Transport and seeking\<close>




lemma notify_transport_g_players [simp]:
  "g_players (notify_transport a param w) = g_players w"
  by (simp add: notify_transport_def)






lemma double_to_nframes_0 [simp]: "double_to_nframes 0 = Inr 0"
  by (simp add: double_to_nframes_def)



subsection \<open>More on the example states\<close>

lemma playing_world_simps [simp]:
  "g_players playing_world = (\<lambda>i. if i = 0 then Some 1 else None)"
  "heap playing_world = (\<lambda>a. playing_player)"
  by (simp_all add: playing_world_def)

lemma open_player_fields [simp]:
  "handle open_player = 0" "jack_client open_player = Some 1" "file_open open_player = 2"
  "play_state open_player = STOPPED" "last_note_played open_player = 0"
  "frames open_player = 4" "play_pos_frames open_player = 0" "gain open_player = 1"
  "file_read_status open_player = LOADING"
  "sf_info open_player = \<lparr>sf_frames = 4, samplerate = 44100, channels = 2, format = 0\<rparr>"
  "ringbuffer_a open_player = Some \<lparr>rb_size = 16, rb_data = encode_floats sym_repr [1/2, 1/4]\<rparr>"
  "ringbuffer_b open_player = Some \<lparr>rb_size = 16, rb_data = encode_floats sym_repr [1/8, 1]\<rparr>"
  by (simp_all add: open_player_def init_player_def)

lemma playing_player_fields [simp]:
  "handle playing_player = 0" "jack_client playing_player = Some 1"
  "file_open playing_player = 2" "play_state playing_player = PLAYING"
  "last_note_played playing_player = 48" "frames playing_player = 4"
  "play_pos_frames playing_player = 0" "gain playing_player = 1"
  "file_read_status playing_player = LOADING"
  "sf_info playing_player = \<lparr>sf_frames = 4, samplerate = 44100, channels = 2, format = 0\<rparr>"
  "ringbuffer_a playing_player = Some \<lparr>rb_size = 16, rb_data = encode_floats sym_repr [1/2, 1/4]\<rparr>"
  "ringbuffer_b playing_player = Some \<lparr>rb_size = 16, rb_data = encode_floats sym_repr [1/8, 1]\<rparr>"
  by (simp_all add: playing_player_def)

lemma get_player_playing [simp]: "get_player playing_world 0 = Inr (Some 1)"
  by (simp add: get_player_def g_players_at_def MAX_PLAYERS_def)



subsection \<open>MIDI events\<close>









subsection \<open>The loops of the callback\<close>

lemma scale_frames_0 [simp]: "scale_frames 0 f outs = outs"
  by (simp add: scale_frames_def)

lemma scale_frames_Suc:
  "scale_frames (Suc n) f outs =
     ((fst (scale_frames n f outs))[n := fst (scale_frames n f outs) ! n * f n],
      (snd (scale_frames n f outs))[n := snd (scale_frames n f outs) ! n * f n])"
  by (simp add: scale_frames_def case_prod_unfold)

lemma scale_frames_length [simp]:
  "length (fst (scale_frames n f outs)) = length (fst outs)"
  "length (snd (scale_frames n f outs)) = length (snd outs)"
  by (induction n) (simp_all add: scale_frames_Suc)


lemma silence_length [simp]: "length (silence count n out) = length out"
  by (induction n) (simp_all add: silence_def)





subsection \<open>Reading the ring buffers and the soft mute\<close>

lemma start_when_sought_g_players [simp]:
  "g_players (start_when_sought w a) = g_players w"
  by (simp add: start_when_sought_def)




lemma soft_mute_g_players [simp]:
  "g_players (fst (soft_mute w a count eof outs)) = g_players w"
  by (simp add: soft_mute_def Let_def)



lemma copy_in_length [simp]: "length (copy_in r pOut bs) = length pOut"
  by (simp add: copy_in_def decode_floats_def)


lemma jack_ringbuffer_read_rest:
  "jack_ringbuffer_read_space (snd (jack_ringbuffer_read rb cnt)) = length (rb_data rb) - cnt"
  by (simp add: jack_ringbuffer_read_def jack_ringbuffer_read_space_def Let_def)



subsection \<open>What the callback keeps\<close>





lemma ending_world_simps [simp]:
  "g_players ending_world = (\<lambda>i. if i = 0 then Some 1 else None)"
  "heap ending_world = (\<lambda>a. ending_player)"
  by (simp_all add: ending_world_def)

lemma ending_player_fields [simp]:
  "file_open ending_player = 2" "play_state ending_player = PLAYING"
  "frames ending_player = 4" "play_pos_frames ending_player = 0" "gain ending_player = 1"
  "file_read_status ending_player = IDLE"
  "ringbuffer_a ending_player = Some \<lparr>rb_size = 16, rb_data = encode_floats sym_repr [1/2, 1/4]\<rparr>"
  "ringbuffer_b ending_player = Some \<lparr>rb_size = 16, rb_data = encode_floats sym_repr [1/8, 1]\<rparr>"
  by (simp_all add: ending_player_def)



subsection \<open>The position\<close>



subsection \<open>Stopping\<close>



subsection \<open>The downmix\<close>

lemma every_other_from:
  assumes "a < n"
  shows "filter (\<lambda>t. even (t - a)) [a..<n] = a # filter (\<lambda>t. even (t - (a + 2))) [a + 2..<n]"
proof -
  have "filter (\<lambda>t. even (t - a)) [Suc a..<n] = filter (\<lambda>t. even (t - (a + 2))) [a + 2..<n]"
  proof (cases "Suc a < n")
    case True
    then have "[Suc a..<n] = Suc a # [a + 2..<n]"
      by (simp add: upt_conv_Cons)
    moreover have "filter (\<lambda>t. even (t - a)) [a + 2..<n]
        = filter (\<lambda>t. even (t - (a + 2))) [a + 2..<n]"
      by (rule filter_cong) auto
    ultimately show ?thesis
      by simp
  next
    case False
    then show ?thesis
      by simp
  qed
  with assms show ?thesis
    by (simp add: upt_conv_Cons)
qed

declare mix_a.simps [simp del] mix_b.simps [simp del]

lemma mix_a_sum:
  assumes "0 \<le> track" and "0 \<le> sample" and "sample + chans \<le> int (length pBufferOut)"
  shows "mix_a pBufferOut chans sample track fA =
     Inr (fA + (\<Sum>t\<leftarrow>filter (\<lambda>t. even (t - nat track)) [nat track..<nat chans].
                   pBufferOut ! (nat sample + t) / real_of_int (chans div 2)))"
  using assms
proof (induction pBufferOut chans sample track fA rule: mix_a.induct)
  case (1 pBufferOut chans sample track fA)
  show ?case
  proof (cases "track < chans")
    case False
    then have finished: "mix_a pBufferOut chans sample track fA = Inr fA"
      by (subst mix_a.simps) simp
    from False "1.prems"(1) have none: "[nat track..<nat chans] = []"
      by simp
    show ?thesis
      unfolding finished none by simp
  next
    case True
    let ?x = "pBufferOut ! nat (sample + track)"
    from True "1.prems" have rd: "buffer_at pBufferOut (sample + track) = Inr ?x"
      by (simp add: buffer_at_def)
    from "1.prems"(1) have "0 \<le> track + 2"
      by simp
    from "1.IH" [OF True rd this "1.prems"(2,3)]
    have ih: "mix_a pBufferOut chans sample (track + 2) (fA + ?x / real_of_int (chans div 2)) =
       Inr (fA + ?x / real_of_int (chans div 2)
            + (\<Sum>t\<leftarrow>filter (\<lambda>t. even (t - nat (track + 2))) [nat (track + 2)..<nat chans].
                   pBufferOut ! (nat sample + t) / real_of_int (chans div 2)))" .
    have step: "mix_a pBufferOut chans sample track fA =
        mix_a pBufferOut chans sample (track + 2) (fA + ?x / real_of_int (chans div 2))"
      using True rd by (subst mix_a.simps) simp
    from True "1.prems"(1) have lt: "nat track < nat chans"
      by simp
    have n2: "nat (track + 2) = nat track + 2"
      using "1.prems"(1) by simp
    have idx: "nat (sample + track) = nat sample + nat track"
      using "1.prems"(1,2) by (simp add: nat_add_distrib)
    show ?thesis
      unfolding step ih every_other_from [OF lt] n2 by (simp add: idx)
  qed
qed

lemma mix_b_sum:
  assumes "0 \<le> track" and "0 \<le> sample" and "sample + chans \<le> int (length pBufferOut)"
  shows "mix_b pBufferOut chans sample track fB =
     Inr (fB + (\<Sum>t\<leftarrow>filter (\<lambda>t. even (t - nat (track + 1))) [nat (track + 1)..<nat chans].
                   pBufferOut ! (nat sample + t) / real_of_int (chans div 2)))"
  using assms
proof (induction pBufferOut chans sample track fB rule: mix_b.induct)
  case (1 pBufferOut chans sample track fB)
  show ?case
  proof (cases "track + 1 < chans")
    case False
    then have finished: "mix_b pBufferOut chans sample track fB = Inr fB"
      by (subst mix_b.simps) simp
    from False "1.prems"(1) have none: "[nat (track + 1)..<nat chans] = []"
      by simp
    show ?thesis
      unfolding finished none by simp
  next
    case True
    let ?x = "pBufferOut ! nat (sample + track + 1)"
    from True "1.prems" have rd: "buffer_at pBufferOut (sample + track + 1) = Inr ?x"
      by (simp add: buffer_at_def)
    from "1.prems"(1) have "0 \<le> track + 2"
      by simp
    from "1.IH" [OF True rd this "1.prems"(2,3)]
    have ih: "mix_b pBufferOut chans sample (track + 2) (fB + ?x / real_of_int (chans div 2)) =
       Inr (fB + ?x / real_of_int (chans div 2)
            + (\<Sum>t\<leftarrow>filter (\<lambda>t. even (t - nat (track + 2 + 1))) [nat (track + 2 + 1)..<nat chans].
                   pBufferOut ! (nat sample + t) / real_of_int (chans div 2)))" .
    have step: "mix_b pBufferOut chans sample track fB =
        mix_b pBufferOut chans sample (track + 2) (fB + ?x / real_of_int (chans div 2))"
      using True rd by (subst mix_b.simps) simp
    from True "1.prems"(1) have lt: "nat (track + 1) < nat chans"
      by simp
    have n2: "nat (track + 2 + 1) = nat (track + 1) + 2"
      using "1.prems"(1) by simp
    have idx: "nat (sample + track + 1) = nat sample + nat (track + 1)"
      using "1.prems"(1,2) by (simp add: nat_add_distrib)
    show ?thesis
      unfolding step ih every_other_from [OF lt] n2 by (simp add: idx)
  qed
qed


lemma filter_even_from_0: "filter (\<lambda>t. even (t - nat 0)) [nat 0..<n] = even_channels n"
  by (simp add: even_channels_def)

lemma filter_even_from_1:
  "filter (\<lambda>t. even (t - nat (0 + 1))) [nat (0 + 1)..<n] = odd_channels n"
proof -
  have "filter (\<lambda>t. even (t - nat (0 + 1))) [nat (0 + 1)..<n] = filter odd [Suc 0..<n]"
    by (rule filter_cong) auto
  also have "\<dots> = filter odd [0..<n]"
  proof (cases "0 < n")
    case True
    then have "[0..<n] = 0 # [Suc 0..<n]"
      by (rule upt_conv_Cons)
    then show ?thesis
      by simp
  next
    case False
    then show ?thesis
      by simp
  qed
  finally show ?thesis
    by (simp add: odd_channels_def)
qed

lemma length_odd_channels: "length (odd_channels n) = n div 2"
  by (induction n) (auto simp: odd_channels_def)

lemma length_even_channels: "length (even_channels n) = (n + 1) div 2"
  by (induction n) (auto simp: even_channels_def)

lemma sum_list_divide:
  "(\<Sum>t\<leftarrow>ts. f t / (k::real)) = sum_list (map f ts) / k"
  by (induction ts) (simp_all add: add_divide_distrib)

text \<open>The two samples of a frame of a file with two or more channels, mixed.\<close>

lemma demux_frame_mix:
  assumes "1 < chans" and "int (Suc frame) * chans \<le> int (length pBufferOut)"
  shows "demux_frame pBufferOut chans (-1) (-1) frame =
     Inr (sum_list (channel_samples pBufferOut (nat chans) frame (even_channels (nat chans)))
            / real_of_int (chans div 2),
          average (channel_samples pBufferOut (nat chans) frame (odd_channels (nat chans))))"
proof -
  let ?s = "int frame * chans"
  have s0: "0 \<le> ?s"
    using assms(1) by simp
  have fit: "?s + chans \<le> int (length pBufferOut)"
    using assms(2) by (simp add: algebra_simps)
  have ns: "nat ?s = frame * nat chans"
    using assms(1) by (simp add: nat_mult_distrib)
  have a0: "mix_a pBufferOut chans ?s 0 0 =
      Inr (0 + (\<Sum>t\<leftarrow>filter (\<lambda>t. even (t - nat 0)) [nat 0..<nat chans].
                   pBufferOut ! (nat ?s + t) / real_of_int (chans div 2)))"
    by (rule mix_a_sum [OF _ s0 fit]) simp
  have a: "mix_a pBufferOut chans ?s 0 0 =
      Inr (sum_list (channel_samples pBufferOut (nat chans) frame (even_channels (nat chans)))
            / real_of_int (chans div 2))"
    unfolding a0 filter_even_from_0
    by (simp add: sum_list_divide channel_samples_def ns comp_def)
  have "nat chans div 2 = nat (chans div 2)"
    using assms(1) by (simp add: nat_div_distrib)
  moreover have "0 \<le> chans div 2"
    using assms(1) by simp
  ultimately have k: "real (length (odd_channels (nat chans))) = real_of_int (chans div 2)"
    by (simp add: length_odd_channels)
  have b0: "mix_b pBufferOut chans ?s 0 0 =
      Inr (0 + (\<Sum>t\<leftarrow>filter (\<lambda>t. even (t - nat (0 + 1))) [nat (0 + 1)..<nat chans].
                   pBufferOut ! (nat ?s + t) / real_of_int (chans div 2)))"
    by (rule mix_b_sum [OF _ s0 fit]) simp
  have b: "mix_b pBufferOut chans ?s 0 0 =
      Inr (average (channel_samples pBufferOut (nat chans) frame (odd_channels (nat chans))))"
    unfolding b0 filter_even_from_1
    by (simp add: sum_list_divide channel_samples_def ns average_def k comp_def)
  from assms(1) a b show ?thesis
    by (simp add: demux_frame_def Let_def)
qed

text \<open>With an even number of channels the A sample is the average as well.\<close>

lemma demux_frame_mix_even:
  assumes "1 < chans" and "even chans" and "int (Suc frame) * chans \<le> int (length pBufferOut)"
  shows "demux_frame pBufferOut chans (-1) (-1) frame =
     Inr (average (channel_samples pBufferOut (nat chans) frame (even_channels (nat chans))),
          average (channel_samples pBufferOut (nat chans) frame (odd_channels (nat chans))))"
proof -
  from assms(2) obtain b where b: "chans = 2 * b"
    by (auto elim: evenE)
  with assms(1) have "nat chans = 2 * nat b"
    by (simp add: nat_mult_distrib)
  then have "(nat chans + 1) div 2 = nat (chans div 2)"
    using b by simp
  moreover have "0 \<le> chans div 2"
    using assms(1) by simp
  ultimately have "real (length (even_channels (nat chans))) = real_of_int (chans div 2)"
    by (simp add: length_even_channels)
  with demux_frame_mix [OF assms(1,3)] show ?thesis
    by (simp add: average_def channel_samples_def)
qed

text \<open>A selected track, and a mono file.\<close>

lemma demux_frame_tracks:
  assumes "1 < chans" and "0 \<le> trackA" and "trackA < chans" and "0 \<le> trackB"
    and "trackB < chans" and "int (Suc frame) * chans \<le> int (length pBufferOut)"
  shows "demux_frame pBufferOut chans trackA trackB frame =
     Inr (pBufferOut ! (frame * nat chans + nat trackA),
          pBufferOut ! (frame * nat chans + nat trackB))"
proof -
  have "int frame * chans + chans \<le> int (length pBufferOut)"
    using assms(6) by (simp add: algebra_simps)
  moreover have "0 \<le> int frame * chans"
    using assms(1) by simp
  ultimately show ?thesis
    using assms(1-5)
    by (simp add: demux_frame_def Let_def buffer_at_def nat_add_distrib nat_mult_distrib)
qed

lemma demux_frame_mono:
  assumes "frame < length pBufferOut"
  shows "demux_frame pBufferOut 1 trackA trackB frame =
     Inr (pBufferOut ! frame / 2, pBufferOut ! frame / 2)"
  using assms by (simp add: demux_frame_def buffer_at_def)

text \<open>
  Claim C1. With three channels and \<^verbatim>\<open>track_a < 0\<close> the A sample is not the average of
  the even-indexed channels: for the frame \<open>(1, 0, 1)\<close> the code gives 2, the sum of
  channels 0 and 2 over \<^verbatim>\<open>channels / 2 = 1\<close>, and the average is 1.
\<close>

theorem three_channel_mix:
  "demux_frame [1, 0, 1] 3 (-1) (-1) 0 = Inr (2, 0)
   \<and> average (channel_samples [1, 0, 1] 3 0 (even_channels 3)) = 1"
  by (simp add: demux_frame_def buffer_at_def mix_a.simps mix_b.simps average_def
      channel_samples_def even_channels_def upt_rec)

subsection \<open>The wait for space\<close>

declare wait_for_space.simps [simp del] demux_loop.simps [simp del]

lemma wait_for_space_room_in_a:
  assumes "ringbuffer_a (heap w a) = Some ra" and "ringbuffer_b (heap w a) = Some rb"
    and "\<not> jack_ringbuffer_write_space ra < nFramesRead * sizeof_float"
  shows "wait_for_space env w a nFramesRead = Inr w"
  using assms by (subst wait_for_space.simps) simp

lemma lopsided_world_simps [simp]:
  "g_players lopsided_world = (\<lambda>i. if i = 0 then Some 1 else None)"
  "heap lopsided_world = (\<lambda>a. lopsided_player)"
  by (simp_all add: lopsided_world_def)

lemma lopsided_player_fields [simp]:
  "file_open lopsided_player = 2" "file_read_status lopsided_player = LOADING"
  "track_a lopsided_player = 0" "track_b lopsided_player = 1"
  "channels (sf_info lopsided_player) = 2"
  "ringbuffer_a lopsided_player = Some \<lparr>rb_size = 16, rb_data = []\<rparr>"
  "ringbuffer_b lopsided_player = Some \<lparr>rb_size = 16,
         rb_data = encode_floats sym_repr [1/8, 1, 1/8] @ [(1, 0), (1, 1)]\<rparr>"
  by (simp_all add: lopsided_player_def open_player_def init_player_def)

text \<open>
  Claim C4. The wait for space ends as soon as one of the two ring buffers has room:
  here ring buffer A is empty and ring buffer B has two bytes free, less than the four
  bytes of the one frame to write. The thread does not sleep (\<open>env\<close> is empty) and
  writes: two bytes of \<^verbatim>\<open>fB\<close> go into ring buffer B, and two bytes of \<^verbatim>\<open>fA\<close> into A.
\<close>

theorem write_without_room:
  "ringbuffer_b (heap lopsided_world 1) = Some \<lparr>rb_size = 16,
         rb_data = encode_floats sym_repr [1/8, 1, 1/8] @ [(1, 0), (1, 1)]\<rparr>
   \<and> jack_ringbuffer_write_space \<lparr>rb_size = 16,
         rb_data = encode_floats sym_repr [1/8, 1, 1/8] @ [(1, 0), (1, 1)]\<rparr> = 2
   \<and> write_block sym_repr [] lopsided_world 1 [1/2, 1/4] 1 =
       Inr (upd 1 (\<lambda>p. p\<lparr>
              ringbuffer_a := Some \<lparr>rb_size = 16, rb_data = [(1/2, 0), (1/2, 1)]\<rparr>,
              ringbuffer_b := Some \<lparr>rb_size = 16,
                rb_data = encode_floats sym_repr [1/8, 1, 1/8] @ [(1, 0), (1, 1)]
                            @ [(1/4, 0), (1/4, 1)]\<rparr>\<rparr>) lopsided_world)"
proof -
  let ?ra = "\<lparr>rb_size = 16, rb_data = [] :: (real \<times> nat) list\<rparr>"
  let ?rb = "\<lparr>rb_size = 16, rb_data = encode_floats sym_repr [1/8, 1, 1/8] @ [(1, 0), (1, 1)]\<rparr>"
  have space_b: "jack_ringbuffer_write_space ?rb = 2"
    by (simp add: jack_ringbuffer_write_space_def encode_floats_def sym_repr_def)
  have space_a: "\<not> jack_ringbuffer_write_space ?ra < 1 * sizeof_float"
    by (simp add: jack_ringbuffer_write_space_def sizeof_float_def)
  have wait: "wait_for_space [] lopsided_world 1 1 = Inr lopsided_world"
    by (rule wait_for_space_room_in_a [OF _ _ space_a]) simp_all
  have frame: "demux_frame [1/2, 1/4] 2 0 1 0 = Inr (1/2, 1/4)"
    by (simp add: demux_frame_def buffer_at_def)
  have loop: "demux_loop sym_repr [1/2, 1/4] 2 0 1 1 0 ?ra ?rb =
      Inr (\<lparr>rb_size = 16, rb_data = [(1/2, 0), (1/2, 1)]\<rparr>,
           \<lparr>rb_size = 16, rb_data = encode_floats sym_repr [1/8, 1, 1/8] @ [(1, 0), (1, 1)]
                            @ [(1/4, 0), (1/4, 1)]\<rparr>)"
    apply (subst demux_loop.simps)
    apply (simp add: frame jack_ringbuffer_write_def space_b Let_def sizeof_float_def
        jack_ringbuffer_write_space_def sym_repr_def encode_floats_def)
    apply (subst demux_loop.simps)
    apply simp
    done
  have "write_block sym_repr [] lopsided_world 1 [1/2, 1/4] 1 =
       Inr (upd 1 (\<lambda>p. p\<lparr>
              ringbuffer_a := Some \<lparr>rb_size = 16, rb_data = [(1/2, 0), (1/2, 1)]\<rparr>,
              ringbuffer_b := Some \<lparr>rb_size = 16,
                rb_data = encode_floats sym_repr [1/8, 1, 1/8] @ [(1, 0), (1, 1)]
                            @ [(1/4, 0), (1/4, 1)]\<rparr>\<rparr>) lopsided_world)"
  proof -
    have st: "file_open (heap lopsided_world 1) = 2"
      "file_read_status (heap lopsided_world 1) = LOADING"
      "ringbuffer_a (heap lopsided_world 1) = Some ?ra"
      "ringbuffer_b (heap lopsided_world 1) = Some ?rb"
      "channels (sf_info (heap lopsided_world 1)) = 2"
      "track_a (heap lopsided_world 1) = 0" "track_b (heap lopsided_world 1) = 1"
      by simp_all
    show ?thesis
      by (simp only: write_block_def wait and_then_Inr st loop simp_thms if_True option.case
          fst_conv snd_conv)
  qed
  moreover have "ringbuffer_b (heap lopsided_world 1) = Some ?rb"
    by simp
  ultimately show ?thesis
    using space_b by (simp only: simp_thms)
qed

end
